theory Spec2Isabelle
  imports Main
begin

section \<open>Python values, errors and string operations\<close>

text \<open>
  The spawner is Python code.  Its strings are modelled as \<^typ>\<open>string\<close> (code points below
  256), its unbounded integers as \<^typ>\<open>int\<close>, and every exception as a value of type
  \<open>error\<close> returned on the left of a sum.
\<close>

datatype error =
    RuntimeError string
  | TypeError
  | ValueError
  | IndexError
  | AssertionError string
  | TraitError
  | TimeoutError
  | ExternalError string

text \<open>The result of \<open>re.search\<close>: a match object, of which the code reads \<open>groups()\<close>.\<close>

datatype re_match = Match "string option list"

datatype pyval =
    PyNone
  | PyBool bool
  | PyInt int
  | PyStr string
  | PyMatch re_match
  | PyExc error

text \<open>Truth value testing, as \<open>if x:\<close> and \<open>x and y\<close> do it.\<close>

fun truthy :: "pyval \<Rightarrow> bool" where
  "truthy PyNone = False"
| "truthy (PyBool b) = b"
| "truthy (PyInt n) = (n \<noteq> 0)"
| "truthy (PyStr s) = (s \<noteq> [])"
| "truthy (PyMatch m) = True"
| "truthy (PyExc e) = True"

text \<open>\<open>s and v\<close> for a string \<open>s\<close>: the empty string itself when \<open>s\<close> is empty, else \<open>v\<close>.\<close>

definition py_and :: "string \<Rightarrow> pyval \<Rightarrow> pyval" where
  "py_and s v = (if s = [] then PyStr s else v)"

text \<open>\<open>s + v\<close> for a string \<open>s\<close>: defined only when \<open>v\<close> is a string too.\<close>

fun py_str_add :: "string \<Rightarrow> pyval \<Rightarrow> error + string" where
  "py_str_add s (PyStr t) = Inr (s @ t)"
| "py_str_add s v = Inl TypeError"

definition NL :: char where "NL = CHR 0x0A"
definition CR :: char where "CR = CHR 0x0D"
definition BSL :: char where "BSL = CHR 0x5C"
definition SQ :: char where "SQ = CHR 0x27"

text \<open>\<open>str.splitlines()\<close>: the line boundaries of Python below code point 256.\<close>

definition is_linebreak :: "char \<Rightarrow> bool" where
  "is_linebreak c = (c \<in> set [NL, CR, CHR 0x0B, CHR 0x0C, CHR 0x1C, CHR 0x1D, CHR 0x1E, CHR 0x85])"

fun splitlines_from :: "string \<Rightarrow> string \<Rightarrow> string list" where
  "splitlines_from acc [] = (if acc = [] then [] else [acc])"
| "splitlines_from acc [c] = (if is_linebreak c then [acc] else [acc @ [c]])"
| "splitlines_from acc (c # d # cs) =
     (if c = CR \<and> d = NL then acc # splitlines_from [] cs
      else if is_linebreak c then acc # splitlines_from [] (d # cs)
      else splitlines_from (acc @ [c]) (d # cs))"

definition splitlines :: "string \<Rightarrow> string list" where
  "splitlines s = splitlines_from [] s"

text \<open>\<open>s.strip(chars)\<close>: drop the characters of \<open>chars\<close> from both ends.\<close>

definition py_strip :: "string \<Rightarrow> string \<Rightarrow> string" where
  "py_strip chars s =
     rev (dropWhile (\<lambda>c. c \<in> set chars) (rev (dropWhile (\<lambda>c. c \<in> set chars) s)))"

text \<open>\<open>s.replace(old, new)\<close>: left to right, occurrences not overlapping.\<close>

fun replace_from :: "string \<Rightarrow> string \<Rightarrow> string \<Rightarrow> string" where
  "replace_from old new [] = []"
| "replace_from old new (c # cs) =
     (if old \<noteq> [] \<and> take (length old) (c # cs) = old
      then new @ replace_from old new (drop (length old - 1) cs)
      else c # replace_from old new cs)"

definition py_replace :: "string \<Rightarrow> string \<Rightarrow> string \<Rightarrow> string" where
  "py_replace old new s =
     (if old = [] then new @ concat (map (\<lambda>c. c # new) s) else replace_from old new s)"

text \<open>\<open>s.split(sep)[0]\<close> for a non-empty \<open>sep\<close>: the text before its first occurrence.\<close>

fun split_first :: "string \<Rightarrow> string \<Rightarrow> string" where
  "split_first sep [] = []"
| "split_first sep (c # cs) =
     (if take (length sep) (c # cs) = sep then [] else c # split_first sep cs)"

text \<open>
  \<open>int(s)\<close> on a string: white space around the number is skipped, which for \<open>int\<close> is
  tab, line feed, vertical tab, form feed, carriage return and space, and of the code
  points above 127 the two that are white space (\<open>0x85\<close>, \<open>0xA0\<close>), but not
  \<open>0x1C\<close> to \<open>0x1F\<close>; then an optional sign; then decimal digits that single underscores
  may separate.  More than \<open>sys.int_info.default_max_str_digits\<close> digits raise
  \<open>ValueError\<close> as a malformed number does.
\<close>

definition is_int_space :: "char \<Rightarrow> bool" where
  "is_int_space c = (c \<in> set [CHR 0x09, NL, CHR 0x0B, CHR 0x0C, CR, CHR 0x20, CHR 0x85, CHR 0xA0])"

definition is_digit :: "char \<Rightarrow> bool" where
  "is_digit c = (c \<in> set ''0123456789'')"

fun digits_us :: "string \<Rightarrow> bool" where
  "digits_us [] = False"
| "digits_us [c] = is_digit c"
| "digits_us (c # d # cs) =
     (is_digit c \<and> (if d = CHR ''_'' then digits_us cs else digits_us (d # cs)))"

definition int_max_str_digits :: int where
  "int_max_str_digits = 4300"

definition py_int_ok :: "string \<Rightarrow> bool" where
  "py_int_ok s =
     (let t = rev (dropWhile is_int_space (rev (dropWhile is_int_space s)));
          body = (case t of
                    [] \<Rightarrow> []
                  | c # r \<Rightarrow> if c = CHR ''+'' \<or> c = CHR ''-'' then r else t)
      in digits_us body \<and> int (length (filter is_digit body)) \<le> int_max_str_digits)"

text \<open>\<open>str(n)\<close> for an integer.\<close>

definition digit_char :: "int \<Rightarrow> char" where
  "digit_char d = ''0123456789'' ! nat d"

function digits :: "int \<Rightarrow> string" where
  "digits n = (if n < 10 then [digit_char n] else digits (n div 10) @ [digit_char (n mod 10)])"
  by pat_completeness auto
termination
  by (relation "measure nat") auto

definition str_of_int :: "int \<Rightarrow> string" where
  "str_of_int i = (if i < 0 then CHR ''-'' # digits (- i) else digits i)"

section \<open>Parsing the job id\<close>

text \<open>
  \<open>RemoteSlurmSpawner.parse_job_id\<close> of \<open>remote_slurm_spawner.py\<close>.  The handler of its
  \<open>try\<close> builds the log message as \<open>"..." + e\<close> with \<open>e\<close> the exception, and re-raises
  \<open>e\<close> only after that.
\<close>

definition parse_job_id_clean :: "string \<Rightarrow> string" where
  "parse_job_id_clean line =
     py_replace ''b'' [] (py_replace [SQ] [] (py_replace [BSL, CHR ''n''] []
       (py_strip [BSL, NL] (py_strip [BSL, CHR ''n''] (py_strip [NL] line)))))"

definition parse_job_id_handler :: "error \<Rightarrow> error + string" where
  "parse_job_id_handler e =
     (case py_str_add ''SlurmSpawner unable to parse job ID from text: '' (PyExc e) of
        Inl te \<Rightarrow> Inl te
      | Inr msg \<Rightarrow> Inl e)"

definition parse_job_id :: "string \<Rightarrow> error + string" where
  "parse_job_id output =
     (case splitlines output of
        [] \<Rightarrow> parse_job_id_handler IndexError
      | l # ls \<Rightarrow>
          (let out = parse_job_id_clean (last (l # ls));
               ident = split_first '';'' out
           in if py_int_ok ident then Inr ident else parse_job_id_handler ValueError))"

text \<open>\<open>RemoteSlurmSpawner.parse_job_id\<close> of \<open>batchspawner/remote_slurm.py\<close>.\<close>

definition parse_job_id_batchspawner :: "string \<Rightarrow> error + string" where
  "parse_job_id_batchspawner output =
     (case splitlines output of
        [] \<Rightarrow> Inl IndexError
      | l # ls \<Rightarrow>
          (let ident = split_first '';'' (last (l # ls))
           in if py_int_ok ident then Inr ident else Inl ValueError))"

section \<open>Configuration, controller state and the outside world\<close>

datatype JobStatus = NOTFOUND | RUNNING | PENDING | UNKNOWN

text \<open>
  The traits the controller reads.  \<open>port_default\<close> is \<open>traits()["port"].default_value\<close>
  of the hub's \<open>Spawner\<close> class; \<open>mock_port\<close> is \<open>None\<close> when the attribute is absent.
\<close>

record config =
  state_pending_re :: string
  state_running_re :: string
  state_unknown_re :: string
  state_exechost_re :: string
  state_exechost_exp :: string
  req_sshPwdFile :: string
  req_sshUser :: string
  req_sshHost :: string
  req_sshTunnelsFolder :: string
  port_default :: int
  mock_port :: "int option"

record spawner =
  job_id :: string
  job_status :: string
  ip :: string
  port :: int

text \<open>
  The commands handed to the executor.  The text of the submit, query and cancel commands
  comes out of the template renderer, which is outside the controller; they are kept by
  kind, with the job id they are formatted with.  The tunnel commands are built by the
  controller itself and kept as text.
\<close>

datatype command = Submit | Query string | Cancel string

datatype action = LocalRun command | SshRun command | Popen string

datatype level = DEBUG | INFO | WARNING | ERROR

datatype delay = StartupPollInterval | OneSecond

datatype event = Log level string | Exec action | Sleep delay

record world =
  clock :: nat
  naps :: nat
  trace :: "event list"

text \<open>
  What the controller does not own: the \<open>re\<close> module (the configured patterns are taken to
  be well-formed), name resolution, the outcome of the \<open>n\<close>-th external command (what
  \<open>run_command\<close> returns or raises, the text \<open>str(...)\<close> of what the SSH channel
  delivered, whether \<open>Popen(...).communicate\<close> raised), and the port that the single-user
  server reports to the hub during the \<open>n\<close>-th sleep of the controller.
\<close>

record env =
  re_search :: "string \<Rightarrow> string \<Rightarrow> re_match option"
  re_expand :: "re_match \<Rightarrow> string \<Rightarrow> string"
  gethostbyname :: "string \<Rightarrow> error + string"
  respond :: "nat \<Rightarrow> action \<Rightarrow> error + string"
  port_posted :: "nat \<Rightarrow> int option"

type_synonym 'a result = "(error + 'a) \<times> spawner \<times> world"

definition log :: "level \<Rightarrow> string \<Rightarrow> world \<Rightarrow> world" where
  "log l m w = w\<lparr>trace := trace w @ [Log l m]\<rparr>"

definition perform :: "env \<Rightarrow> action \<Rightarrow> world \<Rightarrow> (error + string) \<times> world" where
  "perform e a w = (respond e (clock w) a, w\<lparr>clock := Suc (clock w), trace := trace w @ [Exec a]\<rparr>)"

definition sleep :: "env \<Rightarrow> delay \<Rightarrow> spawner \<Rightarrow> world \<Rightarrow> spawner \<times> world" where
  "sleep e d s w =
     ((case port_posted e (naps w) of None \<Rightarrow> s | Some p \<Rightarrow> s\<lparr>port := p\<rparr>),
      w\<lparr>naps := Suc (naps w), trace := trace w @ [Sleep d]\<rparr>)"

section \<open>State classifier (\<open>BatchSpawnerRegexStates\<close>)\<close>

definition search_result :: "env \<Rightarrow> string \<Rightarrow> string \<Rightarrow> pyval" where
  "search_result e pat text = (case re_search e pat text of None \<Rightarrow> PyNone | Some m \<Rightarrow> PyMatch m)"

definition state_ispending :: "config \<Rightarrow> env \<Rightarrow> spawner \<Rightarrow> error + pyval" where
  "state_ispending c e s =
     (if state_pending_re c = [] then Inl (AssertionError ''Misconfigured: define state_running_re'')
      else Inr (py_and (job_status s) (search_result e (state_pending_re c) (job_status s))))"

definition state_isrunning :: "config \<Rightarrow> env \<Rightarrow> spawner \<Rightarrow> error + pyval" where
  "state_isrunning c e s =
     (if state_running_re c = [] then Inl (AssertionError ''Misconfigured: define state_running_re'')
      else Inr (py_and (job_status s) (search_result e (state_running_re c) (job_status s))))"

definition state_isunknown :: "config \<Rightarrow> env \<Rightarrow> spawner \<Rightarrow> pyval" where
  "state_isunknown c e s =
     (if state_unknown_re c \<noteq> []
      then py_and (job_status s) (search_result e (state_unknown_re c) (job_status s))
      else PyNone)"

text \<open>The \<open>if\<close>/\<open>elif\<close> chain that ends both versions of \<open>query_job_status\<close>.\<close>

definition classify :: "config \<Rightarrow> env \<Rightarrow> spawner \<Rightarrow> error + JobStatus" where
  "classify c e s =
     (case state_isrunning c e s of
        Inl x \<Rightarrow> Inl x
      | Inr r \<Rightarrow>
          if truthy r then Inr RUNNING
          else (case state_ispending c e s of
                  Inl x \<Rightarrow> Inl x
                | Inr p \<Rightarrow>
                    if truthy p then Inr PENDING
                    else if truthy (state_isunknown c e s) then Inr UNKNOWN
                    else Inr NOTFOUND))"

definition BatchSpawnerRegexStates_state_gethost ::
  "config \<Rightarrow> env \<Rightarrow> spawner \<Rightarrow> world \<Rightarrow> (error + string option) \<times> world" where
  "BatchSpawnerRegexStates_state_gethost c e s w =
     (if state_exechost_re c = [] then (Inl (AssertionError ''Misconfigured: define state_exechost_re''), w)
      else case re_search e (state_exechost_re c) (job_status s) of
             None \<Rightarrow>
               (Inr None,
                log ERROR (''Spawner unable to match host addr in job status: '' @ job_status s) w)
           | Some m \<Rightarrow>
               if state_exechost_exp c = []
               then (case m of Match [] \<Rightarrow> (Inl IndexError, w) | Match (g # gs) \<Rightarrow> (Inr g, w))
               else (Inr (Some (re_expand e m (state_exechost_exp c))), w))"

text \<open>
  The override of \<open>RemoteSlurmSpawner\<close> hands the result to \<open>socket.gethostbyname\<close>, which
  raises \<open>TypeError\<close> on \<open>None\<close>.
\<close>

definition RemoteSlurmSpawner_state_gethost ::
  "config \<Rightarrow> env \<Rightarrow> spawner \<Rightarrow> world \<Rightarrow> (error + string) \<times> world" where
  "RemoteSlurmSpawner_state_gethost c e s w =
     (case BatchSpawnerRegexStates_state_gethost c e s w of
        (Inl x, w1) \<Rightarrow> (Inl x, w1)
      | (Inr None, w1) \<Rightarrow> (Inl TypeError, w1)
      | (Inr (Some h), w1) \<Rightarrow> (gethostbyname e h, w1))"

section \<open>Querying, polling and persisted state\<close>

text \<open>
  Both versions of \<open>query_job_status\<close>.  The remote one keeps of the text
  \<open>str(ssh_stdout.readlines())\<close> what is left after removing \<open>[\<close> and \<open>'\<close> and cutting
  at the first \<open>" n"\<close> and at the first backslash-\<open>n\<close>.  Of its log lines the one with
  the standard error of the channel is left out.
\<close>

definition BatchSpawnerBase_query_job_status ::
  "config \<Rightarrow> env \<Rightarrow> spawner \<Rightarrow> world \<Rightarrow> JobStatus result" where
  "BatchSpawnerBase_query_job_status c e s w =
     (if job_id s = [] then (Inr NOTFOUND, s\<lparr>job_status := []\<rparr>, w)
      else
        let w1 = log DEBUG (''Spawner querying job: '' @ job_id s) w;
            (r, w2) = perform e (LocalRun (Query (job_id s))) w1;
            (text, w3) =
              (case r of
                 Inr out \<Rightarrow> (out, w2)
               | Inl (RuntimeError m) \<Rightarrow> (m, w2)
               | Inl x \<Rightarrow> ([], log ERROR (''Error querying job '' @ job_id s) w2));
            s1 = s\<lparr>job_status := text\<rparr>
        in (classify c e s1, s1, w3))"

definition RemoteSlurmSpawner_query_job_status ::
  "config \<Rightarrow> env \<Rightarrow> spawner \<Rightarrow> world \<Rightarrow> JobStatus result" where
  "RemoteSlurmSpawner_query_job_status c e s w =
     (if job_id s = [] then (Inr NOTFOUND, s\<lparr>job_status := []\<rparr>, w)
      else
        let w1 = log DEBUG (''Spawner querying job: '' @ job_id s) w;
            (r, w2) = perform e (SshRun (Query (job_id s))) w1;
            (text, w3) =
              (case r of
                 Inr out \<Rightarrow>
                   (split_first [BSL, CHR ''n'']
                      (split_first '' n'' (py_replace [SQ] [] (py_replace ''['' [] out))),
                    log INFO out w2)
               | Inl x \<Rightarrow> ([], log ERROR (''Error querying job '' @ job_id s) w2));
            s1 = s\<lparr>job_status := text\<rparr>
        in (classify c e s1, s1, w3))"

datatype spawner_class = BatchSpawnerRegexStates | RemoteSlurmSpawner

definition query_job_status ::
  "spawner_class \<Rightarrow> config \<Rightarrow> env \<Rightarrow> spawner \<Rightarrow> world \<Rightarrow> JobStatus result" where
  "query_job_status cls =
     (case cls of
        BatchSpawnerRegexStates \<Rightarrow> BatchSpawnerBase_query_job_status
      | RemoteSlurmSpawner \<Rightarrow> RemoteSlurmSpawner_query_job_status)"

definition clear_state :: "spawner \<Rightarrow> spawner" where
  "clear_state s = s\<lparr>job_id := [], job_status := []\<rparr>"

definition poll ::
  "spawner_class \<Rightarrow> config \<Rightarrow> env \<Rightarrow> spawner \<Rightarrow> world \<Rightarrow> (int option) result" where
  "poll cls c e s w =
     (case query_job_status cls c e s w of
        (Inl x, s1, w1) \<Rightarrow> (Inl x, s1, w1)
      | (Inr status, s1, w1) \<Rightarrow>
          if status \<in> set [PENDING, RUNNING, UNKNOWN] then (Inr None, s1, w1)
          else (Inr (Some 1), clear_state s1, w1))"

text \<open>
  \<open>get_state\<close> extends the dictionary of the parent class, \<open>load_state\<close> reads it back with
  \<open>state.get(key, "")\<close>.
\<close>

definition get_state :: "(string \<rightharpoonup> string) \<Rightarrow> spawner \<Rightarrow> (string \<rightharpoonup> string)" where
  "get_state super_state s =
     (let st1 = (if job_id s \<noteq> [] then super_state(''job_id'' \<mapsto> job_id s) else super_state)
      in if job_status s \<noteq> [] then st1(''job_status'' \<mapsto> job_status s) else st1)"

definition load_state :: "spawner \<Rightarrow> (string \<rightharpoonup> string) \<Rightarrow> spawner" where
  "load_state s st =
     s\<lparr>job_id := (case st ''job_id'' of None \<Rightarrow> [] | Some v \<Rightarrow> v),
       job_status := (case st ''job_status'' of None \<Rightarrow> [] | Some v \<Rightarrow> v)\<rparr>"

section \<open>Start\<close>

text \<open>
  The two \<open>start\<close> methods and what they call.  Left out: the updates of the hub's
  \<open>server\<close> and \<open>user\<close> objects, \<open>db.commit()\<close>, the rendering of the batch script and
  the debug line inside \<open>parse_job_id\<close>.
\<close>

definition BatchSpawnerBase_submit_batch_script ::
  "config \<Rightarrow> env \<Rightarrow> spawner \<Rightarrow> world \<Rightarrow> unit result" where
  "BatchSpawnerBase_submit_batch_script c e s w =
     (let w1 = log INFO ''Spawner submitting job'' w;
          (r, w2) = perform e (LocalRun Submit) w1
      in case r of
           Inl x \<Rightarrow> (Inl x, s, w2)
         | Inr out \<Rightarrow> (Inr (), s\<lparr>job_id := out\<rparr>, log INFO (''Job submitted. output: '' @ out) w2))"

definition RemoteSlurmSpawner_submit_batch_script ::
  "config \<Rightarrow> env \<Rightarrow> spawner \<Rightarrow> world \<Rightarrow> string result" where
  "RemoteSlurmSpawner_submit_batch_script c e s w =
     (let w1 = log INFO ''Spawner submitting job'' w;
          (r, w2) = perform e (SshRun Submit) w1
      in case r of
           Inl x \<Rightarrow> (Inl x, s, w2)
         | Inr out \<Rightarrow>
             (let w3 = log INFO (''Job submitted. output: '' @ out) w2
              in case parse_job_id out of
                   Inr i \<Rightarrow> (Inr i, s\<lparr>job_id := i\<rparr>, w3)
                 | Inl x \<Rightarrow>
                     (Inr [], s\<lparr>job_id := []\<rparr>,
                      log ERROR (''Job submission failed with exit code '' @ out) w3)))"

definition no_jobid :: error where
  "no_jobid = RuntimeError ''Jupyter batch job submission failure (no jobid in output)''"

definition job_disappeared :: error where
  "job_disappeared =
     RuntimeError (''The Jupyter batch job has disappeared'' @
                   '' while pending in the queue or died immediately'' @ '' after starting.'')"

text \<open>
  The \<open>while True\<close> loop of both versions of \<open>start\<close>.  It has no bound of its own: the
  caller interrupts it at a sleep when the start timeout expires, which the model renders
  as a number of iterations after which the result is \<open>TimeoutError\<close>.
\<close>

fun start_poll ::
  "spawner_class \<Rightarrow> config \<Rightarrow> env \<Rightarrow> nat \<Rightarrow> spawner \<Rightarrow> world \<Rightarrow> unit result" where
  "start_poll cls c e 0 s w = (Inl TimeoutError, s, w)"
| "start_poll cls c e (Suc n) s w =
     (case query_job_status cls c e s w of
        (Inl x, s1, w1) \<Rightarrow> (Inl x, s1, w1)
      | (Inr status, s1, w1) \<Rightarrow>
          (case status of
             RUNNING \<Rightarrow> (Inr (), s1, w1)
           | PENDING \<Rightarrow>
               (let w2 = log DEBUG (''Job '' @ job_id s1 @ '' still pending'') w1;
                    (s3, w3) = sleep e StartupPollInterval s1 w2
                in start_poll cls c e n s3 w3)
           | UNKNOWN \<Rightarrow>
               (let w2 = log DEBUG (''Job '' @ job_id s1 @ '' still unknown'') w1;
                    (s3, w3) = sleep e StartupPollInterval s1 w2
                in start_poll cls c e n s3 w3)
           | NOTFOUND \<Rightarrow>
               (Inl job_disappeared, clear_state s1,
                log WARNING (''Job '' @ job_id s1 @ '' neither pending nor running.'' @ [NL] @
                             job_status s1) w1)))"

text \<open>The \<open>while self.port == 0\<close> loop.\<close>

fun wait_for_port :: "config \<Rightarrow> env \<Rightarrow> nat \<Rightarrow> spawner \<Rightarrow> world \<Rightarrow> unit result" where
  "wait_for_port c e 0 s w = (if port s = 0 then (Inl TimeoutError, s, w) else (Inr (), s, w))"
| "wait_for_port c e (Suc n) s w =
     (if port s = 0
      then (let (s1, w1) = sleep e StartupPollInterval s w;
                s2 = (case mock_port c of None \<Rightarrow> s1 | Some p \<Rightarrow> s1\<lparr>port := p\<rparr>)
            in wait_for_port c e n s2 w1)
      else (Inr (), s, w))"

definition started_msg :: "spawner \<Rightarrow> string" where
  "started_msg s =
     ''Notebook server job '' @ job_id s @ '' started at '' @ ip s @ '':'' @ str_of_int (port s)"

text \<open>
  \<open>BatchSpawnerBase.start\<close>.  \<open>ip\<close> is a \<open>Unicode\<close> trait, so the assignment of \<open>None\<close>,
  which \<open>state_gethost\<close> returns when the host pattern does not match, raises.
\<close>

definition BatchSpawnerBase_start ::
  "config \<Rightarrow> env \<Rightarrow> nat \<Rightarrow> spawner \<Rightarrow> world \<Rightarrow> (string \<times> int) result" where
  "BatchSpawnerBase_start c e fuel s w =
     (case BatchSpawnerBase_submit_batch_script c e (s\<lparr>ip := ''0.0.0.0'', port := port_default c\<rparr>) w of
        (Inl x, s1, w1) \<Rightarrow> (Inl x, s1, w1)
      | (Inr u, s1, w1) \<Rightarrow>
          if job_id s1 = [] then (Inl no_jobid, s1, w1)
          else
            (case start_poll BatchSpawnerRegexStates c e fuel s1 w1 of
               (Inl x, s2, w2) \<Rightarrow> (Inl x, s2, w2)
             | (Inr u, s2, w2) \<Rightarrow>
                 (case BatchSpawnerRegexStates_state_gethost c e s2 w2 of
                    (Inl x, w3) \<Rightarrow> (Inl x, s2, w3)
                  | (Inr None, w3) \<Rightarrow> (Inl TraitError, s2, w3)
                  | (Inr (Some h), w3) \<Rightarrow>
                      (case wait_for_port c e fuel (s2\<lparr>ip := h\<rparr>) w3 of
                         (Inl x, s4, w4) \<Rightarrow> (Inl x, s4, w4)
                       | (Inr u, s4, w4) \<Rightarrow>
                           (Inr (ip s4, port s4), s4, log INFO (started_msg s4) w4)))))"

text \<open>
  The tunnel commands, with the arguments of the \<open>%\<close> operator in the order of the source.
\<close>

definition tunnel_open_cmd ::
  "string \<Rightarrow> string \<Rightarrow> string \<Rightarrow> int \<Rightarrow> string \<Rightarrow> int \<Rightarrow> string \<Rightarrow> int \<Rightarrow> int \<Rightarrow> string" where
  "tunnel_open_cmd pwd_file user host local_port remote_host remote_port folder sock machine =
     ''nohup sshpass -f '' @ pwd_file @ '' ssh -n -f '' @ user @ ''@'' @ host @
     '' -L '' @ str_of_int local_port @ '':'' @ remote_host @ '':'' @ str_of_int remote_port @
     '' -M -S '' @ folder @ ''/tunnel-'' @ str_of_int sock @
     '' -fN machine-'' @ str_of_int machine @ '' &''"

definition tunnel_close_cmd :: "string \<Rightarrow> int \<Rightarrow> int \<Rightarrow> string" where
  "tunnel_close_cmd folder sock machine =
     ''ssh -S '' @ folder @ ''/tunnel-'' @ str_of_int sock @
     '' -O exit machine-'' @ str_of_int machine"

definition RemoteSlurmSpawner_start ::
  "config \<Rightarrow> env \<Rightarrow> nat \<Rightarrow> spawner \<Rightarrow> world \<Rightarrow> (string \<times> int) result" where
  "RemoteSlurmSpawner_start c e fuel s w =
     (case RemoteSlurmSpawner_submit_batch_script c e (s\<lparr>ip := ''0.0.0.0'', port := port_default c\<rparr>) w of
        (Inl x, s1, w1) \<Rightarrow> (Inl x, s1, w1)
      | (Inr u, s1, w1) \<Rightarrow>
          if job_id s1 = [] then (Inl no_jobid, s1, w1)
          else
            (case start_poll RemoteSlurmSpawner c e fuel s1 w1 of
               (Inl x, s2, w2) \<Rightarrow> (Inl x, s2, w2)
             | (Inr u, s2, w2) \<Rightarrow>
                 (case RemoteSlurmSpawner_state_gethost c e s2 w2 of
                    (Inl x, w3) \<Rightarrow> (Inl x, s2, w3)
                  | (Inr h, w3) \<Rightarrow>
                      (case wait_for_port c e fuel (s2\<lparr>ip := h\<rparr>) w3 of
                         (Inl x, s4, w4) \<Rightarrow> (Inl x, s4, w4)
                       | (Inr u, s4, w4) \<Rightarrow>
                           (let cmd = tunnel_open_cmd (req_sshPwdFile c) (req_sshUser c) (req_sshHost c)
                                        (port s4) (ip s4) (port s4)
                                        (req_sshTunnelsFolder c) (port s4) (port s4);
                                w5 = log INFO (''Tunneling '' @ ip s4 @ '':'' @ str_of_int (port s4) @
                                               '' via  localhost:'' @ str_of_int (port s4)) w4;
                                w6 = log DEBUG (''Executing command: '' @ cmd) w5;
                                (r, w7) = perform e (Popen cmd) w6
                            in case r of
                                 Inl x \<Rightarrow> (Inl x, s4, w7)
                               | Inr outs \<Rightarrow>
                                   (let s8 = s4\<lparr>ip := ''127.0.0.1''\<rparr>;
                                        w8 = log INFO (''Registering server at: '' @ ip s8 @ '':'' @
                                                       str_of_int (port s8)) w7
                                    in (Inr (ip s8, port s8), s8, log INFO (started_msg s8) w8)))))))"

section \<open>Stop\<close>

definition cancel_batch_job :: "env \<Rightarrow> spawner \<Rightarrow> world \<Rightarrow> (error + unit) \<times> world" where
  "cancel_batch_job e s w =
     (let w1 = log INFO (''Cancelling job '' @ job_id s) w;
          (r, w2) = perform e (LocalRun (Cancel (job_id s))) w1
      in (case r of Inl x \<Rightarrow> Inl x | Inr out \<Rightarrow> Inr (), w2))"

definition not_terminated_msg :: "spawner \<Rightarrow> string" where
  "not_terminated_msg s =
     ''Notebook server job '' @ job_id s @ '' at '' @ ip s @ '':'' @ str_of_int (port s) @
     '' possibly failed to terminate''"

text \<open>The \<open>for _ in range(10)\<close> loop of \<open>stop\<close> and the warning after it.\<close>

fun stop_confirm ::
  "spawner_class \<Rightarrow> config \<Rightarrow> env \<Rightarrow> nat \<Rightarrow> spawner \<Rightarrow> world \<Rightarrow> unit result" where
  "stop_confirm cls c e 0 s w =
     (Inr (), s, if job_id s \<noteq> [] then log WARNING (not_terminated_msg s) w else w)"
| "stop_confirm cls c e (Suc n) s w =
     (case query_job_status cls c e s w of
        (Inl x, s1, w1) \<Rightarrow> (Inl x, s1, w1)
      | (Inr status, s1, w1) \<Rightarrow>
          if status \<notin> set [RUNNING, UNKNOWN] then (Inr (), s1, w1)
          else (let (s2, w2) = sleep e OneSecond s1 w1 in stop_confirm cls c e n s2 w2))"

text \<open>
  The body of \<open>BatchSpawnerBase.stop\<close>, which the stop of \<open>RemoteSlurmSpawner\<close> repeats
  after its tunnel teardown; the class decides which \<open>query_job_status\<close> runs.
\<close>

definition cancel_and_confirm ::
  "spawner_class \<Rightarrow> config \<Rightarrow> env \<Rightarrow> spawner \<Rightarrow> bool \<Rightarrow> world \<Rightarrow> unit result" where
  "cancel_and_confirm cls c e s now w =
     (case cancel_batch_job e s (log INFO (''Stopping server job '' @ job_id s) w) of
        (Inl x, w1) \<Rightarrow> (Inl x, s, w1)
      | (Inr u, w1) \<Rightarrow> if now then (Inr (), s, w1) else stop_confirm cls c e 10 s w1)"

definition BatchSpawnerBase_stop ::
  "config \<Rightarrow> env \<Rightarrow> spawner \<Rightarrow> bool \<Rightarrow> world \<Rightarrow> unit result" where
  "BatchSpawnerBase_stop c e s now w = cancel_and_confirm BatchSpawnerRegexStates c e s now w"

text \<open>
  \<open>RemoteSlurmSpawner.stop\<close>.  Its first statement builds a log line as
  \<open>"Stopping ssh tunnel on port: " + self.port\<close> with the integer port.  After it come
  the teardown of the tunnel inside \<open>try\<close>, whose handler raises the exception again, and
  the body of the base class.  The handler's \<open>log.error(msg, ex)\<close> has an argument and no
  placeholder, so it emits no record, here and in \<open>start\<close>.
\<close>

definition RemoteSlurmSpawner_stop ::
  "config \<Rightarrow> env \<Rightarrow> spawner \<Rightarrow> bool \<Rightarrow> world \<Rightarrow> unit result" where
  "RemoteSlurmSpawner_stop c e s now w =
     (case py_str_add ''Stopping ssh tunnel on port: '' (PyInt (port s)) of
        Inl x \<Rightarrow> (Inl x, s, w)
      | Inr msg \<Rightarrow>
          (let w0 = log INFO msg w;
               cmd = tunnel_close_cmd (req_sshTunnelsFolder c) (port s) (port s);
               w1 = log DEBUG (''Executing command: '' @ cmd) w0;
               (r, w2) = perform e (Popen cmd) w1
           in case r of
                Inl x \<Rightarrow> (Inl x, s, w2)
              | Inr outs \<Rightarrow> cancel_and_confirm RemoteSlurmSpawner c e s now w2))"

section \<open>A small pattern matcher for closed examples\<close>

text \<open>
  The theorems below hold for every \<open>re_search\<close>.  Closed examples need one: this matcher
  covers the patterns made of an optional \<open>^\<close>, literal characters and an optional final
  \<open>(.*)\<close>, on which it returns what \<open>re.search\<close> returns; any other pattern is outside
  its domain and never used with it.
\<close>

fun find_literal :: "string \<Rightarrow> string \<Rightarrow> string option" where
  "find_literal lit [] = (if lit = [] then Some [] else None)"
| "find_literal lit (c # cs) =
     (if take (length lit) (c # cs) = lit then Some (drop (length lit) (c # cs))
      else find_literal lit cs)"

definition literal_search :: "string \<Rightarrow> string \<Rightarrow> re_match option" where
  "literal_search pat text =
     (let anchored = (take 1 pat = ''^'');
          body = (if anchored then drop 1 pat else pat);
          capture = (4 \<le> length body \<and> drop (length body - 4) body = ''(.*)'');
          lit = (if capture then take (length body - 4) body else body);
          found = (if anchored
                   then (if take (length lit) text = lit then Some (drop (length lit) text) else None)
                   else find_literal lit text)
      in if \<exists>c \<in> set lit. c \<in> set ''.^$*+?{}[]|()'' \<or> c = BSL then None
         else case found of
                None \<Rightarrow> None
              | Some rest \<Rightarrow>
                  Some (Match (if capture then [Some (takeWhile (\<lambda>c. c \<noteq> NL) rest)] else [])))"

section \<open>A scripted executor for closed examples\<close>

definition example_config :: config where
  "example_config =
     \<lparr>state_pending_re = ''^PENDING'', state_running_re = ''^RUNNING'',
      state_unknown_re = ''^slurm_load_jobs error'', state_exechost_re = '' (.*)'',
      state_exechost_exp = [], req_sshPwdFile = ''~/.passwd'', req_sshUser = ''user'',
      req_sshHost = ''login'', req_sshTunnelsFolder = ''~/.tunnels'',
      port_default = 0, mock_port = Some 8888\<rparr>"

text \<open>The \<open>n\<close>-th command gets the \<open>n\<close>-th entry of the script, whatever the command is.\<close>

definition scripted :: "(error + string) list \<Rightarrow> env" where
  "scripted script =
     \<lparr>re_search = literal_search,
      re_expand = (\<lambda>m t. t),
      gethostbyname = (\<lambda>h. if h = ''cn42'' then Inr ''10.0.0.42'' else Inl (ExternalError ''gaierror'')),
      respond = (\<lambda>n a. if n < length script then script ! n else Inl (ExternalError ''script ended'')),
      port_posted = (\<lambda>n. None)\<rparr>"

definition always :: "(error + string) \<Rightarrow> env" where
  "always r = (scripted [])\<lparr>respond := (\<lambda>n a. r)\<rparr>"

definition fresh :: spawner where
  "fresh = \<lparr>job_id = [], job_status = [], ip = [], port = 0\<rparr>"

definition world0 :: world where
  "world0 = \<lparr>clock = 0, naps = 0, trace = []\<rparr>"

definition job209 :: spawner where
  "job209 = \<lparr>job_id = ''209'', job_status = ''PENDING'', ip = ''cn42'', port = 8888\<rparr>"

definition job209r :: spawner where
  "job209r = \<lparr>job_id = ''209'', job_status = ''RUNNING cn42'', ip = ''cn42'', port = 8888\<rparr>"

text \<open>Three variations of the configuration: no unknown-pattern; pending and running
  patterns that match every text, the empty one too; a pending pattern that matches the
  running status.\<close>

definition no_unknown_config :: config where
  "no_unknown_config = example_config\<lparr>state_unknown_re := []\<rparr>"

definition lenient_config :: config where
  "lenient_config = example_config\<lparr>state_pending_re := ''^'', state_running_re := ''^''\<rparr>"

definition overlapping_config :: config where
  "overlapping_config = example_config\<lparr>state_pending_re := ''RUNNING''\<rparr>"

text \<open>
  A running job whose status text carries no host; and what the SSH channel delivers as
  text: \<open>b'209\n'\<close> for the submit command, \<open>['PENDING \n']\<close>, \<open>['RUNNING cn42\n']\<close> and
  \<open>['RUNNING node1\n']\<close> for the query command (each \<open>\n\<close> a backslash and an \<open>n\<close>).
\<close>

definition running_no_host :: spawner where
  "running_no_host = \<lparr>job_id = ''209'', job_status = ''RUNNING'', ip = ''0.0.0.0'', port = 8888\<rparr>"

definition ssh_submit_209 :: string where
  "ssh_submit_209 = ''b'' @ [SQ] @ ''209'' @ [BSL, CHR ''n'', SQ]"

definition ssh_status :: "string \<Rightarrow> string" where
  "ssh_status line = ''['' @ [SQ] @ line @ [BSL, CHR ''n'', SQ] @ '']''"

text \<open>A remote session in which the job is pending once and then runs on \<open>cn42\<close>;
  the last entry answers the tunnel command.\<close>

definition remote_session :: "(error + string) list" where
  "remote_session =
     [Inr ssh_submit_209, Inr (ssh_status ''PENDING ''), Inr (ssh_status ''RUNNING cn42''), Inr []]"

text \<open>What a trace shows of the executor and the clock: its events other than log lines.\<close>

definition commands :: "event list \<Rightarrow> event list" where
  "commands tr = filter (\<lambda>ev. case ev of Log l m \<Rightarrow> False | Exec a \<Rightarrow> True | Sleep d \<Rightarrow> True) tr"

text \<open>The command that \<open>query_job_status\<close> of a class runs for a job id.\<close>

definition query_action :: "spawner_class \<Rightarrow> string \<Rightarrow> action" where
  "query_action cls jid =
     (case cls of
        BatchSpawnerRegexStates \<Rightarrow> LocalRun (Query jid)
      | RemoteSlurmSpawner \<Rightarrow> SshRun (Query jid))"

text \<open>The world once \<open>stop\<close> has logged its line and run the cancel command.\<close>

definition after_cancel :: "spawner \<Rightarrow> world \<Rightarrow> world" where
  "after_cancel s w =
     w\<lparr>clock := Suc (clock w),
       trace := trace w @ [Log INFO (''Stopping server job '' @ job_id s),
                           Log INFO (''Cancelling job '' @ job_id s),
                           Exec (LocalRun (Cancel (job_id s)))]\<rparr>"

section \<open>Properties of job-id parsing\<close>

lemma parse_job_id_numeric: "parse_job_id out = Inr i \<Longrightarrow> py_int_ok i"
  by (auto simp: parse_job_id_def parse_job_id_handler_def Let_def split: list.splits if_splits)

lemma parse_job_id_raises:
  "isl (parse_job_id out) \<longleftrightarrow>
     (splitlines out = [] \<or>
      \<not> py_int_ok (split_first '';'' (parse_job_id_clean (last (splitlines out)))))"
  by (auto simp: parse_job_id_def parse_job_id_handler_def Let_def split: list.splits if_splits)

lemma parse_job_id_batchspawner_raises:
  "isl (parse_job_id_batchspawner out) \<longleftrightarrow>
     (splitlines out = [] \<or> \<not> py_int_ok (split_first '';'' (last (splitlines out))))"
  by (auto simp: parse_job_id_batchspawner_def Let_def split: list.splits if_splits)

text \<open>
  What \<open>int\<close> accepts around and in a number: the separators \<open>0x1C\<close> to \<open>0x1F\<close> are not
  white space for it, \<open>0x85\<close> is, and 4301 digits are too many.
\<close>

lemma py_int_ok_unit_separator:
  "\<not> py_int_ok (''209'' @ [CHR 0x1F]) \<and> \<not> py_int_ok (CHR 0x1C # ''209'') \<and>
   py_int_ok (''209'' @ [CHR 0x85]) \<and> py_int_ok '' +2_09 '' \<and>
   parse_job_id_batchspawner (''209'' @ [CHR 0x1F, NL]) = Inl ValueError \<and>
   parse_job_id (''209'' @ [CHR 0x1F, NL]) = Inl TypeError"
  by code_simp

lemma py_int_ok_digit_limit: "4300 < n \<Longrightarrow> \<not> py_int_ok (replicate n (CHR ''1''))"
proof -
  assume n: "4300 < n"
  define xs where "xs = replicate n (CHR ''1'')"
  have d: "dropWhile is_int_space xs = xs"
    unfolding xs_def by (cases n) (simp_all add: is_int_space_def NL_def CR_def)
  have r: "rev xs = xs"
    unfolding xs_def by simp
  have t: "rev (dropWhile is_int_space (rev (dropWhile is_int_space xs))) = xs"
    by (simp add: d r)
  have b: "(case xs of [] \<Rightarrow> [] | c # r \<Rightarrow> if c = CHR ''+'' \<or> c = CHR ''-'' then r else xs) = xs"
    unfolding xs_def by (cases n) simp_all
  have f: "length (filter is_digit xs) = n"
    unfolding xs_def by (simp add: is_digit_def)
  have "py_int_ok xs = (digits_us xs \<and> int (length (filter is_digit xs)) \<le> int_max_str_digits)"
    unfolding py_int_ok_def Let_def t b ..
  then show ?thesis
    using n by (simp add: f int_max_str_digits_def xs_def [symmetric])
qed

lemma submit_parse_failure:
  "respond e (clock w) (SshRun Submit) = Inr out \<Longrightarrow> isl (parse_job_id out) \<Longrightarrow>
   fst (RemoteSlurmSpawner_start c e fuel s w) = Inl no_jobid"
  by (auto simp: RemoteSlurmSpawner_start_def RemoteSlurmSpawner_submit_batch_script_def
        perform_def log_def Let_def split: sum.splits)

text \<open>
  C3, as stated, fails: on the output \<open>"Submitted batch job 209\n"\<close> both versions of
  \<open>parse_job_id\<close> raise instead of returning \<open>"209"\<close>.  They take the text of the last
  line before the first \<open>;\<close>, which here is the whole sentence (in
  \<open>remote_slurm_spawner.py\<close> less its letters \<open>b\<close>), and \<open>int\<close> rejects it.
\<close>

theorem parse_job_id_submitted_line_counterexample:
  "parse_job_id (''Submitted batch job 209'' @ [NL]) \<noteq> Inr ''209'' \<and>
   parse_job_id (''Submitted batch job 209'' @ [NL]) = Inl TypeError \<and>
   parse_job_id_batchspawner (''Submitted batch job 209'' @ [NL]) \<noteq> Inr ''209'' \<and>
   parse_job_id_batchspawner (''Submitted batch job 209'' @ [NL]) = Inl ValueError"
  by code_simp

text \<open>
  C3, amended: \<open>parse_job_id\<close> maps the output \<open>"209\n"\<close> of \<open>sbatch --parsable\<close> to
  \<open>"209"\<close>, also after banner lines that end in real line breaks and before a
  \<open>;cluster\<close> suffix; the version of \<open>remote_slurm_spawner.py\<close> also maps the text
  \<open>b'209\n'\<close> (the \<open>str\<close> of the bytes read from the SSH channel, with a literal
  backslash) to \<open>"209"\<close>; both versions raise exactly when the output has no line or
  \<open>int\<close> rejects the text before the first \<open>;\<close> of the last line (as it does
  \<open>"209"\<close> followed by the separator \<open>0x1F\<close>), every id returned is accepted by
  \<open>int\<close>, and a remote start whose submit output does not parse fails with the
  submission error.
\<close>

theorem parse_job_id_parsable_output:
  "parse_job_id (''209'' @ [NL]) = Inr ''209'' \<and>
   parse_job_id_batchspawner (''209'' @ [NL]) = Inr ''209'' \<and>
   parse_job_id (''b'' @ [SQ] @ ''209'' @ [BSL, CHR ''n'', SQ]) = Inr ''209'' \<and>
   parse_job_id (''sbatch: note'' @ [NL] @ ''209;cluster'' @ [NL]) = Inr ''209'' \<and>
   parse_job_id_batchspawner (''sbatch: note'' @ [NL] @ ''209;cluster'' @ [NL]) = Inr ''209'' \<and>
   isl (parse_job_id (''209'' @ [CHR 0x1F, NL])) \<and>
   isl (parse_job_id_batchspawner (''209'' @ [CHR 0x1F, NL])) \<and>
   (isl (parse_job_id out) \<longleftrightarrow>
      (splitlines out = [] \<or>
       \<not> py_int_ok (split_first '';'' (parse_job_id_clean (last (splitlines out)))))) \<and>
   (isl (parse_job_id_batchspawner out) \<longleftrightarrow>
      (splitlines out = [] \<or> \<not> py_int_ok (split_first '';'' (last (splitlines out))))) \<and>
   (parse_job_id out = Inr i \<longrightarrow> py_int_ok i) \<and>
   (respond e (clock w) (SshRun Submit) = Inr out \<and> isl (parse_job_id out) \<longrightarrow>
      fst (RemoteSlurmSpawner_start c e fuel s w) = Inl no_jobid)"
proof -
  have closed:
    "parse_job_id (''209'' @ [NL]) = Inr ''209'' \<and>
     parse_job_id_batchspawner (''209'' @ [NL]) = Inr ''209'' \<and>
     parse_job_id (''b'' @ [SQ] @ ''209'' @ [BSL, CHR ''n'', SQ]) = Inr ''209'' \<and>
     parse_job_id (''sbatch: note'' @ [NL] @ ''209;cluster'' @ [NL]) = Inr ''209'' \<and>
     parse_job_id_batchspawner (''sbatch: note'' @ [NL] @ ''209;cluster'' @ [NL]) = Inr ''209'' \<and>
     isl (parse_job_id (''209'' @ [CHR 0x1F, NL])) \<and>
     isl (parse_job_id_batchspawner (''209'' @ [CHR 0x1F, NL]))"
    by code_simp
  show ?thesis
    using closed parse_job_id_raises [of out] parse_job_id_batchspawner_raises [of out]
      parse_job_id_numeric [of out i] submit_parse_failure [of e w out c fuel s]
    by blast
qed

theorem parse_job_id_parsable_output_witness:
  "respond (scripted [Inr ''209x'']) (clock world0) (SshRun Submit) = Inr ''209x'' \<and>
   isl (parse_job_id ''209x'') \<and>
   fst (RemoteSlurmSpawner_start example_config (scripted [Inr ''209x'']) 5 fresh world0) = Inl no_jobid \<and>
   parse_job_id ''209;x'' = Inr ''209'' \<and> py_int_ok ''209''"
proof -
  have h1: "respond (scripted [Inr ''209x'']) (clock world0) (SshRun Submit) = Inr ''209x''"
    by (simp add: scripted_def world0_def)
  have h2: "isl (parse_job_id ''209x'')"
    by code_simp
  have h3: "parse_job_id ''209;x'' = Inr ''209''"
    by code_simp
  from parse_job_id_parsable_output
         [of "''209x''" "''209''" "scripted [Inr ''209x'']" world0 example_config 5 fresh] h1 h2
  have "fst (RemoteSlurmSpawner_start example_config (scripted [Inr ''209x'']) 5 fresh world0) = Inl no_jobid"
    by blast
  moreover from parse_job_id_parsable_output [of "''209;x''" "''209''"] h3
  have "py_int_ok ''209''"
    by blast
  ultimately show ?thesis
    using h1 h2 h3 by blast
qed

section \<open>Properties of the classifier\<close>

lemma classify_job_status: "job_status a = job_status b \<Longrightarrow> classify c e a = classify c e b"
  by (simp add: classify_def state_isrunning_def state_ispending_def state_isunknown_def)

text \<open>
  C4, as stated, fails on the empty status text: with pending and running patterns that
  both match it (\<open>^\<close>), the classification is \<open>NOTFOUND\<close>, since \<open>state_isrunning\<close> and
  \<open>state_ispending\<close> test \<open>self.job_status and re.search(...)\<close>.
\<close>

theorem classify_empty_status_counterexample:
  "re_search (scripted []) (state_pending_re lenient_config) (job_status fresh) \<noteq> None \<and>
   re_search (scripted []) (state_running_re lenient_config) (job_status fresh) \<noteq> None \<and>
   classify lenient_config (scripted []) fresh \<noteq> Inr RUNNING \<and>
   classify lenient_config (scripted []) fresh = Inr NOTFOUND"
  by (simp add: lenient_config_def example_config_def fresh_def scripted_def literal_search_def
        classify_def state_isrunning_def state_ispending_def state_isunknown_def py_and_def)

text \<open>
  C4, amended: for every non-empty status text (and configured pending and running
  patterns) the classification follows the precedence Running, Pending, Unknown, NotFound:
  \<open>RUNNING\<close> if the running pattern matches, else \<open>PENDING\<close> if the pending pattern
  matches, else \<open>UNKNOWN\<close> if an unknown-pattern is configured and matches, else
  \<open>NOTFOUND\<close>; in particular a text matching both the pending and the running pattern is
  \<open>RUNNING\<close>.
\<close>

theorem classify_precedence:
  "state_pending_re c \<noteq> [] \<Longrightarrow> state_running_re c \<noteq> [] \<Longrightarrow> job_status s \<noteq> [] \<Longrightarrow>
   classify c e s = Inr
     (if re_search e (state_running_re c) (job_status s) \<noteq> None then RUNNING
      else if re_search e (state_pending_re c) (job_status s) \<noteq> None then PENDING
      else if state_unknown_re c \<noteq> [] \<and> re_search e (state_unknown_re c) (job_status s) \<noteq> None
           then UNKNOWN
      else NOTFOUND)"
  by (auto simp: state_isunknown_def state_ispending_def state_isrunning_def py_and_def
        classify_def search_result_def split: sum.splits option.splits)

theorem classify_precedence_witness:
  "state_pending_re overlapping_config \<noteq> [] \<and> state_running_re overlapping_config \<noteq> [] \<and>
   job_status job209r \<noteq> [] \<and>
   re_search (scripted []) (state_pending_re overlapping_config) (job_status job209r) \<noteq> None \<and>
   re_search (scripted []) (state_running_re overlapping_config) (job_status job209r) \<noteq> None \<and>
   classify overlapping_config (scripted []) job209r = Inr RUNNING"
proof -
  have h: "state_pending_re overlapping_config \<noteq> []" "state_running_re overlapping_config \<noteq> []"
          "job_status job209r \<noteq> []"
    by (simp_all add: overlapping_config_def example_config_def job209r_def)
  have m1: "re_search (scripted []) (state_pending_re overlapping_config) (job_status job209r) \<noteq> None"
    by code_simp
  have m2: "re_search (scripted []) (state_running_re overlapping_config) (job_status job209r) \<noteq> None"
    by code_simp
  show ?thesis
    using h m1 m2 classify_precedence [OF h, of "scripted []"] by simp
qed

text \<open>
  C5, as stated, fails: with no unknown-pattern configured \<open>state_isunknown\<close> does not
  return \<open>False\<close>; it falls off its \<open>if\<close> and returns \<open>None\<close>, as its comment says.
\<close>

theorem state_isunknown_unset_counterexample:
  "state_unknown_re no_unknown_config = [] \<and>
   state_isunknown no_unknown_config (scripted []) job209 \<noteq> PyBool False"
  by (simp add: no_unknown_config_def state_isunknown_def)

text \<open>
  C5, amended: when no unknown-pattern is configured, \<open>state_isunknown\<close> returns \<open>None\<close>
  for every status text, which is falsy, so that the classification is never \<open>UNKNOWN\<close>.
\<close>

theorem state_isunknown_unset_is_None:
  "state_unknown_re c = [] \<Longrightarrow>
   state_isunknown c e s = PyNone \<and> \<not> truthy (state_isunknown c e s) \<and>
   classify c e s \<noteq> Inr UNKNOWN"
  by (auto simp: state_isunknown_def classify_def split: sum.splits)

theorem state_isunknown_unset_is_None_witness:
  "state_unknown_re no_unknown_config = [] \<and>
   state_isunknown no_unknown_config (scripted []) job209 = PyNone \<and>
   \<not> truthy (state_isunknown no_unknown_config (scripted []) job209) \<and>
   classify no_unknown_config (scripted []) job209 \<noteq> Inr UNKNOWN"
proof -
  have h: "state_unknown_re no_unknown_config = []"
    by (simp add: no_unknown_config_def)
  show ?thesis
    using h state_isunknown_unset_is_None [OF h, of "scripted []" job209] by blast
qed

text \<open>
  C10: with non-empty pending and running patterns and an empty stored status text,
  \<open>state_ispending\<close> and \<open>state_isrunning\<close> return the empty string, \<open>state_isunknown\<close>
  returns a falsy value, whatever the patterns match, and the classification is
  \<open>NOTFOUND\<close>.
\<close>

theorem empty_status_is_NOTFOUND:
  "state_pending_re c \<noteq> [] \<Longrightarrow> state_running_re c \<noteq> [] \<Longrightarrow> job_status s = [] \<Longrightarrow>
   state_ispending c e s = Inr (PyStr []) \<and> state_isrunning c e s = Inr (PyStr []) \<and>
   \<not> truthy (PyStr []) \<and> \<not> truthy (state_isunknown c e s) \<and> classify c e s = Inr NOTFOUND"
  by (auto simp: state_isunknown_def state_ispending_def state_isrunning_def py_and_def
        classify_def split: sum.splits)

theorem empty_status_is_NOTFOUND_witness:
  "state_pending_re lenient_config \<noteq> [] \<and> state_running_re lenient_config \<noteq> [] \<and>
   job_status fresh = [] \<and>
   re_search (scripted []) (state_pending_re lenient_config) (job_status fresh) \<noteq> None \<and>
   re_search (scripted []) (state_running_re lenient_config) (job_status fresh) \<noteq> None \<and>
   state_ispending lenient_config (scripted []) fresh = Inr (PyStr []) \<and>
   state_isrunning lenient_config (scripted []) fresh = Inr (PyStr []) \<and>
   \<not> truthy (state_isunknown lenient_config (scripted []) fresh) \<and>
   classify lenient_config (scripted []) fresh = Inr NOTFOUND"
proof -
  have h: "state_pending_re lenient_config \<noteq> []" "state_running_re lenient_config \<noteq> []"
          "job_status fresh = []"
    by (simp_all add: lenient_config_def fresh_def)
  have m: "re_search (scripted []) (state_pending_re lenient_config) (job_status fresh) \<noteq> None"
          "re_search (scripted []) (state_running_re lenient_config) (job_status fresh) \<noteq> None"
    by (simp_all add: lenient_config_def fresh_def scripted_def literal_search_def)
  show ?thesis
    using h m empty_status_is_NOTFOUND [OF h, of "scripted []"] by blast
qed

section \<open>Queries and persisted state\<close>

lemma base_query_depends:
  assumes "job_id t = job_id s"
  shows "BatchSpawnerBase_query_job_status c e t w =
    (case BatchSpawnerBase_query_job_status c e s w of
       (r, s', w') \<Rightarrow> (r, t\<lparr>job_status := job_status s'\<rparr>, w'))"
proof (cases "respond e (clock w) (LocalRun (Query (job_id s)))")
  case (Inl x)
  then show ?thesis
    using assms
    by (cases x)
       (simp_all add: BatchSpawnerBase_query_job_status_def Let_def perform_def log_def
          classify_job_status [of "t\<lparr>job_status := u\<rparr>" "s\<lparr>job_status := u\<rparr>" for u])
next
  case (Inr out)
  then show ?thesis
    using assms
    by (simp add: BatchSpawnerBase_query_job_status_def Let_def perform_def log_def
          classify_job_status [of "t\<lparr>job_status := u\<rparr>" "s\<lparr>job_status := u\<rparr>" for u])
qed

lemma remote_query_depends:
  assumes "job_id t = job_id s"
  shows "RemoteSlurmSpawner_query_job_status c e t w =
    (case RemoteSlurmSpawner_query_job_status c e s w of
       (r, s', w') \<Rightarrow> (r, t\<lparr>job_status := job_status s'\<rparr>, w'))"
proof (cases "respond e (clock w) (SshRun (Query (job_id s)))")
  case (Inl x)
  then show ?thesis
    using assms
    by (simp add: RemoteSlurmSpawner_query_job_status_def Let_def perform_def log_def
          classify_job_status [of "t\<lparr>job_status := u\<rparr>" "s\<lparr>job_status := u\<rparr>" for u])
next
  case (Inr out)
  then show ?thesis
    using assms
    by (simp add: RemoteSlurmSpawner_query_job_status_def Let_def perform_def log_def
          classify_job_status [of "t\<lparr>job_status := u\<rparr>" "s\<lparr>job_status := u\<rparr>" for u])
qed

lemma query_job_status_depends:
  assumes "job_id t = job_id s"
  shows "query_job_status cls c e t w =
    (case query_job_status cls c e s w of (r, s', w') \<Rightarrow> (r, t\<lparr>job_status := job_status s'\<rparr>, w'))"
  using base_query_depends [OF assms] remote_query_depends [OF assms]
  by (cases cls) (simp_all add: query_job_status_def)

lemma query_job_status_job_id:
  "query_job_status cls c e s w = (r, s', w') \<Longrightarrow> job_id s' = job_id s"
  by (cases cls)
     (auto simp: query_job_status_def BatchSpawnerBase_query_job_status_def
        RemoteSlurmSpawner_query_job_status_def Let_def
        split: prod.splits if_splits)

lemma poll_depends:
  assumes "job_id t = job_id s"
  shows "poll cls c e t w =
    (case poll cls c e s w of
       (r, s', w') \<Rightarrow> (r, t\<lparr>job_id := job_id s', job_status := job_status s'\<rparr>, w'))"
proof -
  obtain r s1 w1 where q: "query_job_status cls c e s w = (r, s1, w1)"
    by (cases "query_job_status cls c e s w") auto
  have j: "job_id s1 = job_id s"
    using q by (rule query_job_status_job_id)
  have qt: "query_job_status cls c e t w = (r, t\<lparr>job_status := job_status s1\<rparr>, w1)"
    using query_job_status_depends [OF assms, of cls c e w] q by simp
  show ?thesis
    using assms j by (cases r) (simp_all add: poll_def q qt clear_state_def)
qed

lemma load_get_state:
  assumes "parent ''job_id'' = None" and "parent ''job_status'' = None"
  shows "load_state f (get_state parent s) = f\<lparr>job_id := job_id s, job_status := job_status s\<rparr>"
  using assms by (simp add: load_state_def get_state_def Let_def)

text \<open>
  C9: \<open>get_state\<close> adds to the dictionary of the parent class the job id and the status
  text (each when non-empty) and nothing else; \<open>load_state\<close> sets these two fields and no
  other; and when the parent class does not use the two keys, a controller loaded from the
  saved state has the job id and status text of the original, and its \<open>poll\<close> returns what
  the original's returns, runs the same commands and leaves the same job id and status
  text (so the same holds for the polls after it).
\<close>

theorem get_state_load_state_poll:
  "parent ''job_id'' = None \<Longrightarrow> parent ''job_status'' = None \<Longrightarrow>
   (\<forall>k. get_state parent s k =
      (if k = ''job_id'' \<and> job_id s \<noteq> [] then Some (job_id s)
       else if k = ''job_status'' \<and> job_status s \<noteq> [] then Some (job_status s)
       else parent k)) \<and>
   load_state f st = f\<lparr>job_id := (case st ''job_id'' of None \<Rightarrow> [] | Some v \<Rightarrow> v),
                        job_status := (case st ''job_status'' of None \<Rightarrow> [] | Some v \<Rightarrow> v)\<rparr> \<and>
   load_state f (get_state parent s) = f\<lparr>job_id := job_id s, job_status := job_status s\<rparr> \<and>
   poll cls c e (load_state f (get_state parent s)) w =
     (case poll cls c e s w of
        (r, s', w') \<Rightarrow> (r, f\<lparr>job_id := job_id s', job_status := job_status s'\<rparr>, w'))"
proof -
  assume a: "parent ''job_id'' = None" "parent ''job_status'' = None"
  have l: "load_state f (get_state parent s) = f\<lparr>job_id := job_id s, job_status := job_status s\<rparr>"
    using a by (rule load_get_state)
  have p: "poll cls c e (f\<lparr>job_id := job_id s, job_status := job_status s\<rparr>) w =
     (case poll cls c e s w of
        (r, s', w') \<Rightarrow> (r, f\<lparr>job_id := job_id s', job_status := job_status s'\<rparr>, w'))"
    using poll_depends [of "f\<lparr>job_id := job_id s, job_status := job_status s\<rparr>" s cls c e w]
    by (simp split: prod.splits)
  have g: "\<forall>k. get_state parent s k =
      (if k = ''job_id'' \<and> job_id s \<noteq> [] then Some (job_id s)
       else if k = ''job_status'' \<and> job_status s \<noteq> [] then Some (job_status s)
       else parent k)"
    by (simp add: get_state_def Let_def)
  have d: "load_state f st = f\<lparr>job_id := (case st ''job_id'' of None \<Rightarrow> [] | Some v \<Rightarrow> v),
                        job_status := (case st ''job_status'' of None \<Rightarrow> [] | Some v \<Rightarrow> v)\<rparr>"
    by (simp add: load_state_def)
  show ?thesis
    unfolding l using g d p by blast
qed

theorem get_state_load_state_poll_witness:
  "(Map.empty :: string \<rightharpoonup> string) ''job_id'' = None \<and>
   (Map.empty :: string \<rightharpoonup> string) ''job_status'' = None \<and>
   load_state fresh (get_state Map.empty job209) = fresh\<lparr>job_id := ''209'', job_status := ''PENDING''\<rparr> \<and>
   fst (poll BatchSpawnerRegexStates example_config (scripted [Inr ''COMPLETED''])
         (load_state fresh (get_state Map.empty job209)) world0) = Inr (Some 1)"
proof -
  have h: "(Map.empty :: string \<rightharpoonup> string) ''job_id'' = None"
          "(Map.empty :: string \<rightharpoonup> string) ''job_status'' = None"
    by simp_all
  note t = get_state_load_state_poll
             [OF h, of job209 fresh "Map.empty" BatchSpawnerRegexStates example_config
                "scripted [Inr ''COMPLETED'']" world0]
  have p: "fst (poll BatchSpawnerRegexStates example_config (scripted [Inr ''COMPLETED'']) job209 world0)
             = Inr (Some 1)"
    by code_simp
  have l: "load_state fresh (get_state Map.empty job209) = fresh\<lparr>job_id := ''209'', job_status := ''PENDING''\<rparr>"
    using t by (simp add: job209_def)
  have q: "fst (poll BatchSpawnerRegexStates example_config (scripted [Inr ''COMPLETED''])
         (load_state fresh (get_state Map.empty job209)) world0) = Inr (Some 1)"
  proof -
    obtain s' w' where pe:
      "poll BatchSpawnerRegexStates example_config (scripted [Inr ''COMPLETED'']) job209 world0
         = (Inr (Some 1), s', w')"
      using p
      by (cases "poll BatchSpawnerRegexStates example_config (scripted [Inr ''COMPLETED'']) job209 world0")
         auto
    from t have "poll BatchSpawnerRegexStates example_config (scripted [Inr ''COMPLETED''])
                   (load_state fresh (get_state Map.empty job209)) world0 =
       (case poll BatchSpawnerRegexStates example_config (scripted [Inr ''COMPLETED'']) job209 world0 of
          (r, s', w') \<Rightarrow> (r, fresh\<lparr>job_id := job_id s', job_status := job_status s'\<rparr>, w'))"
      by blast
    then show ?thesis
      unfolding pe by simp
  qed
  show ?thesis
    using h l q by blast
qed

section \<open>The polling loop of start\<close>

lemma BatchSpawnerBase_start_poll_failure:
  "BatchSpawnerBase_submit_batch_script c e (s0\<lparr>ip := ''0.0.0.0'', port := port_default c\<rparr>) w0
     = (Inr u, sb, wb) \<Longrightarrow>
   job_id sb \<noteq> [] \<Longrightarrow>
   start_poll BatchSpawnerRegexStates c e fuel sb wb = (Inl x, s', w') \<Longrightarrow>
   BatchSpawnerBase_start c e fuel s0 w0 = (Inl x, s', w')"
  by (simp add: BatchSpawnerBase_start_def)

lemma RemoteSlurmSpawner_start_poll_failure:
  "RemoteSlurmSpawner_submit_batch_script c e (s0\<lparr>ip := ''0.0.0.0'', port := port_default c\<rparr>) w0
     = (Inr u, sb, wb) \<Longrightarrow>
   job_id sb \<noteq> [] \<Longrightarrow>
   start_poll RemoteSlurmSpawner c e fuel sb wb = (Inl x, s', w') \<Longrightarrow>
   RemoteSlurmSpawner_start c e fuel s0 w0 = (Inl x, s', w')"
  by (simp add: RemoteSlurmSpawner_start_def)

lemma classify_error: "classify c e s = Inl x \<Longrightarrow> \<exists>m. x = AssertionError m"
  by (auto simp: classify_def state_isrunning_def state_ispending_def split: if_splits sum.splits)

lemma query_job_status_error:
  "query_job_status cls c e s w = (Inl x, s1, w1) \<Longrightarrow> \<exists>m. x = AssertionError m"
  by (cases cls)
     (auto simp: query_job_status_def BatchSpawnerBase_query_job_status_def
        RemoteSlurmSpawner_query_job_status_def Let_def
        split: prod.splits if_splits dest: classify_error)

lemma start_poll_disappeared_cleared:
  "start_poll cls c e n s w = (Inl job_disappeared, s', w') \<Longrightarrow>
   job_id s' = [] \<and> job_status s' = []"
proof (induction n arbitrary: s w)
  case 0
  then show ?case by (simp add: job_disappeared_def)
next
  case (Suc n)
  obtain q s1 w1 where q: "query_job_status cls c e s w = (q, s1, w1)"
    by (cases "query_job_status cls c e s w") auto
  show ?case
  proof (cases q)
    case (Inl x)
    then show ?thesis
      using Suc.prems q query_job_status_error [of cls c e s w x s1 w1]
      by (auto simp: job_disappeared_def)
  next
    case (Inr st)
    then show ?thesis
      using Suc.prems q Suc.IH
      by (cases st) (auto simp: clear_state_def Let_def split: prod.splits)
  qed
qed

text \<open>
  C1: in the polling loop of \<open>start\<close> (either class), whenever a query classifies the job
  as neither pending nor running nor unknown, the loop ends there: the job id and the
  status text are cleared and the error is "job disappeared ... or died immediately".
  By the lemmas above, \<open>start\<close> raises what its loop raises, and the loop never ends with
  this error without having cleared both fields.
\<close>

theorem start_poll_not_found_fails:
  "query_job_status cls c e s w = (Inr status, s1, w1) \<Longrightarrow>
   status \<notin> {PENDING, RUNNING, UNKNOWN} \<Longrightarrow>
   (\<exists>s2 w2. start_poll cls c e (Suc n) s w = (Inl job_disappeared, s2, w2) \<and>
      s2 = clear_state s1 \<and> job_id s2 = [] \<and> job_status s2 = [])"
  by (cases status) (auto simp: clear_state_def)

theorem start_poll_not_found_fails_witness:
  "fst (query_job_status BatchSpawnerRegexStates example_config (scripted [Inr ''COMPLETED''])
         job209 world0) = Inr NOTFOUND \<and>
   NOTFOUND \<notin> {PENDING, RUNNING, UNKNOWN} \<and>
   fst (start_poll BatchSpawnerRegexStates example_config (scripted [Inr ''COMPLETED'']) 1
         job209 world0) = Inl job_disappeared \<and>
   job_id (fst (snd (start_poll BatchSpawnerRegexStates example_config
                       (scripted [Inr ''COMPLETED'']) 1 job209 world0))) = [] \<and>
   job_status (fst (snd (start_poll BatchSpawnerRegexStates example_config
                           (scripted [Inr ''COMPLETED'']) 1 job209 world0))) = [] \<and>
   fst (BatchSpawnerBase_start example_config
          (scripted [Inr ''209'', Inr ''PENDING'', Inr ''COMPLETED'']) 5 fresh world0)
     = Inl job_disappeared \<and>
   job_id (fst (snd (BatchSpawnerBase_start example_config
          (scripted [Inr ''209'', Inr ''PENDING'', Inr ''COMPLETED'']) 5 fresh world0))) = []"
proof -
  have ev: "fst (BatchSpawnerBase_start example_config
          (scripted [Inr ''209'', Inr ''PENDING'', Inr ''COMPLETED'']) 5 fresh world0)
     = Inl job_disappeared \<and>
   job_id (fst (snd (BatchSpawnerBase_start example_config
          (scripted [Inr ''209'', Inr ''PENDING'', Inr ''COMPLETED'']) 5 fresh world0))) = []"
    by code_simp
  have q: "fst (query_job_status BatchSpawnerRegexStates example_config
                  (scripted [Inr ''COMPLETED'']) job209 world0) = Inr NOTFOUND"
    by code_simp
  then obtain s1 w1 where q': "query_job_status BatchSpawnerRegexStates example_config
      (scripted [Inr ''COMPLETED'']) job209 world0 = (Inr NOTFOUND, s1, w1)"
    by (cases "query_job_status BatchSpawnerRegexStates example_config
                 (scripted [Inr ''COMPLETED'']) job209 world0")
       auto
  have n: "NOTFOUND \<notin> {PENDING, RUNNING, UNKNOWN}"
    by simp
  from start_poll_not_found_fails [OF q' n, of 0] obtain s2 w2 where
    "start_poll BatchSpawnerRegexStates example_config (scripted [Inr ''COMPLETED'']) (Suc 0)
       job209 world0 = (Inl job_disappeared, s2, w2)" "job_id s2 = []" "job_status s2 = []"
    by blast
  then show ?thesis
    using q n ev by simp
qed

section \<open>Properties of stop\<close>

lemma commands_append [simp]: "commands (xs @ ys) = commands xs @ commands ys"
  by (simp add: commands_def)

lemma commands_simps [simp]:
  "commands [] = []"
  "commands (Log l m # tr) = commands tr"
  "commands (Exec a # tr) = Exec a # commands tr"
  "commands (Sleep d # tr) = Sleep d # commands tr"
  by (simp_all add: commands_def)

lemma classify_total:
  "state_pending_re c \<noteq> [] \<Longrightarrow> state_running_re c \<noteq> [] \<Longrightarrow> \<exists>st. classify c e s = Inr st"
  by (simp add: classify_def state_isrunning_def state_ispending_def)

lemma query_job_status_total:
  assumes "state_pending_re c \<noteq> []" "state_running_re c \<noteq> []"
  shows "\<exists>st. fst (query_job_status cls c e s w) = Inr st"
  using classify_total [OF assms]
  by (cases cls)
     (auto simp: query_job_status_def BatchSpawnerBase_query_job_status_def
        RemoteSlurmSpawner_query_job_status_def Let_def split: prod.splits)

lemma query_job_status_commands:
  "query_job_status cls c e s w = (r, s1, w1) \<Longrightarrow>
   commands (trace w1) =
     commands (trace w) @ (if job_id s = [] then [] else [Exec (query_action cls (job_id s))])"
  by (cases cls)
     (auto simp: query_job_status_def BatchSpawnerBase_query_job_status_def
        RemoteSlurmSpawner_query_job_status_def query_action_def Let_def perform_def log_def
        split: prod.splits sum.splits error.splits if_splits)

lemma query_job_status_no_id:
  "job_id s = [] \<Longrightarrow> fst (query_job_status cls c e s w) = Inr NOTFOUND"
  by (cases cls)
     (simp_all add: query_job_status_def BatchSpawnerBase_query_job_status_def
        RemoteSlurmSpawner_query_job_status_def)

lemma sleep_job_id: "sleep e d s w = (s', w') \<Longrightarrow> job_id s' = job_id s"
  by (auto simp: sleep_def split: option.splits)

lemma sleep_commands: "sleep e d s w = (s', w') \<Longrightarrow> commands (trace w') = commands (trace w) @ [Sleep d]"
  by (auto simp: sleep_def)


lemma stop_confirm_total:
  assumes "state_pending_re c \<noteq> []" "state_running_re c \<noteq> []"
  shows "fst (stop_confirm cls c e n s w) = Inr ()"
proof (induction n arbitrary: s w)
  case 0
  show ?case by simp
next
  case (Suc n)
  obtain st where "fst (query_job_status cls c e s w) = Inr st"
    using query_job_status_total [OF assms] by blast
  then obtain s1 w1 where q: "query_job_status cls c e s w = (Inr st, s1, w1)"
    by (cases "query_job_status cls c e s w") auto
  obtain s2 w2 where sl: "sleep e OneSecond s1 w1 = (s2, w2)"
    by (cases "sleep e OneSecond s1 w1") auto
  show ?case
    using Suc.IH [of s2 w2] by (simp add: q sl)
qed

lemma stop_confirm_commands:
  "stop_confirm cls c e n s w = (r, s', w') \<Longrightarrow>
   \<exists>k rest. k \<le> n \<and>
     commands (trace w') =
       commands (trace w) @
       concat (replicate k [Exec (query_action cls (job_id s)), Sleep OneSecond]) @ rest \<and>
     (rest = [] \<or> rest = [Exec (query_action cls (job_id s))] \<and> k < n)"
proof (induction n arbitrary: s w)
  case 0
  then have "commands (trace w') = commands (trace w)"
    by (auto simp: log_def split: if_splits)
  then show ?case by simp
next
  case (Suc n)
  obtain q s1 w1 where q: "query_job_status cls c e s w = (q, s1, w1)"
    by (cases "query_job_status cls c e s w") auto
  note qc = query_job_status_commands [OF q]
  note qj = query_job_status_job_id [OF q]
  obtain s2 w2 where sl: "sleep e OneSecond s1 w1 = (s2, w2)"
    by (cases "sleep e OneSecond s1 w1") auto
  show ?case
  proof (cases "q = Inr RUNNING \<or> q = Inr UNKNOWN")
    case False
    then have "w' = w1"
      using Suc.prems q by (cases q) (auto split: if_splits)
    then have "commands (trace w') =
       commands (trace w) @ concat (replicate 0 [Exec (query_action cls (job_id s)), Sleep OneSecond]) @
       (if job_id s = [] then [] else [Exec (query_action cls (job_id s))])"
      using qc by simp
    then show ?thesis
      by (metis (full_types) le0 zero_less_Suc)
  next
    case True
    then have id: "job_id s \<noteq> []"
      using query_job_status_no_id [of s cls c e w] q by auto
    from True have rec: "stop_confirm cls c e n s2 w2 = (r, s', w')"
      using Suc.prems q sl by auto
    from Suc.IH [OF rec] obtain k rest where kr: "k \<le> n"
      "commands (trace w') = commands (trace w2) @
         concat (replicate k [Exec (query_action cls (job_id s2)), Sleep OneSecond]) @ rest"
      "rest = [] \<or> rest = [Exec (query_action cls (job_id s2))] \<and> k < n"
      by blast
    have j2: "job_id s2 = job_id s"
      using sleep_job_id [OF sl] qj by simp
    have "commands (trace w') = commands (trace w) @
         concat (replicate (Suc k) [Exec (query_action cls (job_id s)), Sleep OneSecond]) @ rest"
      using kr(2) sleep_commands [OF sl] qc id j2 by simp
    moreover have "Suc k \<le> Suc n" using kr(1) by simp
    moreover have "rest = [] \<or> rest = [Exec (query_action cls (job_id s))] \<and> Suc k < Suc n"
      using kr(3) j2 by auto
    ultimately show ?thesis by blast
  qed
qed

lemma stop_confirm_unconfirmed:
  assumes "\<forall>s' w'. job_id s' = job_id s \<longrightarrow>
             fst (query_job_status cls c e s' w') \<in> {Inr RUNNING, Inr UNKNOWN}"
  shows "\<exists>s' w'. stop_confirm cls c e n s w = (Inr (), s', w') \<and>
           Log WARNING (not_terminated_msg s') \<in> set (trace w') \<and>
           commands (trace w') = commands (trace w) @
             concat (replicate n [Exec (query_action cls (job_id s)), Sleep OneSecond])"
  using assms
proof (induction n arbitrary: s w)
  case 0
  have "job_id s \<noteq> []"
    using 0 [rule_format, of s w] query_job_status_no_id [of s cls c e w] by auto
  then show ?case by (simp add: log_def)
next
  case (Suc n)
  have id: "job_id s \<noteq> []"
    using Suc.prems [rule_format, of s w] query_job_status_no_id [of s cls c e w] by auto
  obtain q s1 w1 where q: "query_job_status cls c e s w = (q, s1, w1)"
    by (cases "query_job_status cls c e s w") auto
  have qr: "q = Inr RUNNING \<or> q = Inr UNKNOWN"
    using Suc.prems [rule_format, of s w] q by simp
  note qc = query_job_status_commands [OF q]
  note qj = query_job_status_job_id [OF q]
  obtain s2 w2 where sl: "sleep e OneSecond s1 w1 = (s2, w2)"
    by (cases "sleep e OneSecond s1 w1") auto
  have j2: "job_id s2 = job_id s"
    using sleep_job_id [OF sl] qj by simp
  have "\<forall>s' w'. job_id s' = job_id s2 \<longrightarrow>
             fst (query_job_status cls c e s' w') \<in> {Inr RUNNING, Inr UNKNOWN}"
    using Suc.prems j2 by simp
  from Suc.IH [OF this, of w2] obtain s' w' where r:
    "stop_confirm cls c e n s2 w2 = (Inr (), s', w')"
    "Log WARNING (not_terminated_msg s') \<in> set (trace w')"
    "commands (trace w') = commands (trace w2) @
             concat (replicate n [Exec (query_action cls (job_id s2)), Sleep OneSecond])"
    by blast
  have "stop_confirm cls c e (Suc n) s w = (Inr (), s', w')"
    using qr q sl r(1) by auto
  moreover have "commands (trace w') = commands (trace w) @
             concat (replicate (Suc n) [Exec (query_action cls (job_id s)), Sleep OneSecond])"
    using r(3) sleep_commands [OF sl] qc id j2 by simp
  ultimately show ?case
    using r(2) by blast
qed

lemma cancel_batch_job_result:
  "cancel_batch_job e s w =
     ((case respond e (clock w) (LocalRun (Cancel (job_id s))) of Inl x \<Rightarrow> Inl x | Inr out \<Rightarrow> Inr ()),
      w\<lparr>clock := Suc (clock w),
        trace := trace w @ [Log INFO (''Cancelling job '' @ job_id s), Exec (LocalRun (Cancel (job_id s)))]\<rparr>)"
  by (simp add: cancel_batch_job_def perform_def log_def Let_def)


lemma after_cancel_commands:
  "commands (trace (after_cancel s w)) = commands (trace w) @ [Exec (LocalRun (Cancel (job_id s)))]"
  by (simp add: after_cancel_def)

lemma cancel_and_confirm_unfold:
  "cancel_and_confirm cls c e s now w =
     (case respond e (clock w) (LocalRun (Cancel (job_id s))) of
        Inl x \<Rightarrow> (Inl x, s, after_cancel s w)
      | Inr out \<Rightarrow>
          if now then (Inr (), s, after_cancel s w)
          else stop_confirm cls c e 10 s (after_cancel s w))"
  by (simp add: cancel_and_confirm_def cancel_batch_job_def perform_def log_def Let_def
        after_cancel_def split: sum.splits)

text \<open>
  C7: \<open>stop\<close> with \<open>now=True\<close> runs the cancel command and nothing after it (no query, no
  sleep), and returns unless the cancel command raised.  With \<open>now=False\<close> it runs the
  cancel command, then at most 10 status queries, each but a final one followed by a sleep
  of one second.  If the cancel command succeeded and every query finds the job running
  or unknown, there are 10 queries and 10 sleeps, a warning is logged and \<open>stop\<close> returns
  normally.
\<close>

theorem stop_immediate_and_bounded_confirmation:
  "BatchSpawnerBase_stop c e s now w = (r, s', w') \<Longrightarrow>
   (now \<longrightarrow>
      commands (trace w') = commands (trace w) @ [Exec (LocalRun (Cancel (job_id s)))] \<and>
      r = (case respond e (clock w) (LocalRun (Cancel (job_id s))) of
             Inl x \<Rightarrow> Inl x | Inr out \<Rightarrow> Inr ())) \<and>
   (\<not> now \<longrightarrow>
      (\<exists>k rest. k \<le> 10 \<and>
         commands (trace w') =
           commands (trace w) @ [Exec (LocalRun (Cancel (job_id s)))] @
           concat (replicate k [Exec (LocalRun (Query (job_id s))), Sleep OneSecond]) @ rest \<and>
         (rest = [] \<or> rest = [Exec (LocalRun (Query (job_id s)))] \<and> k < 10))) \<and>
   (\<not> now \<and> respond e (clock w) (LocalRun (Cancel (job_id s))) = Inr out \<and>
    (\<forall>s1 w1. job_id s1 = job_id s \<longrightarrow>
       fst (query_job_status BatchSpawnerRegexStates c e s1 w1) \<in> {Inr RUNNING, Inr UNKNOWN}) \<longrightarrow>
      r = Inr () \<and> Log WARNING (not_terminated_msg s') \<in> set (trace w') \<and>
      commands (trace w') =
        commands (trace w) @ [Exec (LocalRun (Cancel (job_id s)))] @
        concat (replicate 10 [Exec (LocalRun (Query (job_id s))), Sleep OneSecond]))"
proof -
  assume "BatchSpawnerBase_stop c e s now w = (r, s', w')"
  then have st: "cancel_and_confirm BatchSpawnerRegexStates c e s now w = (r, s', w')"
    by (simp add: BatchSpawnerBase_stop_def)
  let ?w1 = "after_cancel s w"
  let ?cr = "respond e (clock w) (LocalRun (Cancel (job_id s)))"
  note c1 = after_cancel_commands [of s w]
  have qa: "query_action BatchSpawnerRegexStates (job_id s) = LocalRun (Query (job_id s))"
    by (simp add: query_action_def)
  show ?thesis
  proof (cases ?cr)
    case (Inl x)
    then have "r = Inl x" "w' = ?w1"
      using st by (auto simp: cancel_and_confirm_unfold)
    then show ?thesis
      using Inl c1 by (auto intro!: exI [of _ 0])
  next
    case (Inr out')
    show ?thesis
    proof (cases now)
      case True
      then have "r = Inr ()" "w' = ?w1"
        using st Inr by (auto simp: cancel_and_confirm_unfold)
      then show ?thesis
        using Inr c1 True by simp
    next
      case False
      then have sc: "stop_confirm BatchSpawnerRegexStates c e 10 s ?w1 = (r, s', w')"
        using st Inr by (simp add: cancel_and_confirm_unfold)
      have b: "\<exists>k rest. k \<le> 10 \<and>
         commands (trace w') =
           commands (trace w) @ [Exec (LocalRun (Cancel (job_id s)))] @
           concat (replicate k [Exec (LocalRun (Query (job_id s))), Sleep OneSecond]) @ rest \<and>
         (rest = [] \<or> rest = [Exec (LocalRun (Query (job_id s)))] \<and> k < 10)"
        using stop_confirm_commands [OF sc] c1 qa by (metis append_assoc)
      have u: "r = Inr () \<and> Log WARNING (not_terminated_msg s') \<in> set (trace w') \<and>
          commands (trace w') =
            commands (trace w) @ [Exec (LocalRun (Cancel (job_id s)))] @
            concat (replicate 10 [Exec (LocalRun (Query (job_id s))), Sleep OneSecond])"
        if a: "\<forall>s1 w1. job_id s1 = job_id s \<longrightarrow>
           fst (query_job_status BatchSpawnerRegexStates c e s1 w1) \<in> {Inr RUNNING, Inr UNKNOWN}"
        using stop_confirm_unconfirmed [OF a, of 10 ?w1] sc c1 qa by auto
      show ?thesis
        using False b u by blast
    qed
  qed
qed


lemma always_running:
  "job_id s1 = job_id job209r \<Longrightarrow>
   fst (query_job_status BatchSpawnerRegexStates example_config (always (Inr ''RUNNING cn42'')) s1 w1)
     \<in> {Inr RUNNING, Inr UNKNOWN}"
proof -
  assume j: "job_id s1 = job_id job209r"
  have "classify example_config (always (Inr ''RUNNING cn42'')) job209r = Inr RUNNING"
    by code_simp
  moreover have "classify example_config (always (Inr ''RUNNING cn42'')) (s1\<lparr>job_status := ''RUNNING cn42''\<rparr>)
      = classify example_config (always (Inr ''RUNNING cn42'')) job209r"
    by (rule classify_job_status) (simp add: job209r_def)
  moreover have "job_id s1 \<noteq> []"
    using j by (simp add: job209r_def)
  ultimately show ?thesis
    by (simp add: query_job_status_def BatchSpawnerBase_query_job_status_def Let_def perform_def
          log_def always_def)
qed

theorem stop_immediate_and_bounded_confirmation_witness:
  "fst (BatchSpawnerBase_stop example_config (always (Inr ''RUNNING cn42'')) job209r True world0) = Inr () \<and>
   commands (trace (snd (snd (BatchSpawnerBase_stop example_config (always (Inr ''RUNNING cn42''))
                                job209r True world0)))) = [Exec (LocalRun (Cancel ''209''))] \<and>
   fst (BatchSpawnerBase_stop example_config (always (Inr ''RUNNING cn42'')) job209r False world0) = Inr () \<and>
   commands (trace (snd (snd (BatchSpawnerBase_stop example_config (always (Inr ''RUNNING cn42''))
                                job209r False world0)))) =
     Exec (LocalRun (Cancel ''209'')) #
     concat (replicate 10 [Exec (LocalRun (Query ''209'')), Sleep OneSecond])"
proof -
  let ?e = "always (Inr ''RUNNING cn42'')"
  obtain r1 s1 w1 where t: "BatchSpawnerBase_stop example_config ?e job209r True world0 = (r1, s1, w1)"
    by (cases "BatchSpawnerBase_stop example_config ?e job209r True world0") auto
  obtain r2 s2 w2 where f: "BatchSpawnerBase_stop example_config ?e job209r False world0 = (r2, s2, w2)"
    by (cases "BatchSpawnerBase_stop example_config ?e job209r False world0") auto
  have cr: "respond ?e (clock world0) (LocalRun (Cancel (job_id job209r))) = Inr ''RUNNING cn42''"
    by (simp add: always_def)
  have al: "\<forall>s1 w1. job_id s1 = job_id job209r \<longrightarrow>
       fst (query_job_status BatchSpawnerRegexStates example_config ?e s1 w1) \<in> {Inr RUNNING, Inr UNKNOWN}"
    using always_running by blast
  have j: "job_id job209r = ''209''" "commands (trace world0) = []"
    by (simp_all add: job209r_def world0_def)
  from stop_immediate_and_bounded_confirmation [OF t, of "''RUNNING cn42''"] cr j
  have a: "r1 = Inr ()" "commands (trace w1) = [Exec (LocalRun (Cancel ''209''))]"
    by simp_all
  from stop_immediate_and_bounded_confirmation [OF f, of "''RUNNING cn42''"] cr al j
  have b: "r2 = Inr ()" "commands (trace w2) = Exec (LocalRun (Cancel ''209'')) #
     concat (replicate 10 [Exec (LocalRun (Query ''209'')), Sleep OneSecond])"
    by simp_all
  show ?thesis
    using a b by (simp add: t f)
qed

lemma cancel_and_confirm_result:
  "fst (cancel_and_confirm cls c e s now w) =
     (case respond e (clock w) (LocalRun (Cancel (job_id s))) of
        Inl x \<Rightarrow> Inl x
      | Inr out \<Rightarrow> if now then Inr () else fst (stop_confirm cls c e 10 s (after_cancel s w)))"
  by (simp add: cancel_and_confirm_unfold split: sum.splits)

lemma BatchSpawnerBase_stop_result:
  "fst (BatchSpawnerBase_stop c e s now w) =
     (case respond e (clock w) (LocalRun (Cancel (job_id s))) of
        Inl x \<Rightarrow> Inl x
      | Inr out \<Rightarrow>
          if now then Inr () else fst (stop_confirm BatchSpawnerRegexStates c e 10 s (after_cancel s w)))"
  by (simp add: BatchSpawnerBase_stop_def cancel_and_confirm_result)

lemma RemoteSlurmSpawner_stop_raises: "RemoteSlurmSpawner_stop c e s now w = (Inl TypeError, s, w)"
  by (simp add: RemoteSlurmSpawner_stop_def)

text \<open>
  C2 does not hold of the code: \<open>RemoteSlurmSpawner.stop\<close> raises on every call.  For a
  running job 209 with port 8888 and an executor on which the teardown, the cancel and
  every query would succeed, \<open>stop\<close> raises \<open>TypeError\<close> at its first statement, with and
  without \<open>now\<close>; no command has run, so the tunnel is not torn down and the job is not
  cancelled.
\<close>

theorem remote_stop_raises_TypeError:
  "RemoteSlurmSpawner_stop example_config (always (Inr [])) job209r True world0
     = (Inl TypeError, job209r, world0) \<and>
   RemoteSlurmSpawner_stop example_config (always (Inr [])) job209r False world0
     = (Inl TypeError, job209r, world0) \<and>
   commands (trace world0) = []"
  by (simp add: RemoteSlurmSpawner_stop_def world0_def)

section \<open>Host extraction and the endpoint of a remote start\<close>

lemma gethost_no_match:
  "state_exechost_re c \<noteq> [] \<Longrightarrow> re_search e (state_exechost_re c) (job_status s) = None \<Longrightarrow>
   BatchSpawnerRegexStates_state_gethost c e s w =
     (Inr None, log ERROR (''Spawner unable to match host addr in job status: '' @ job_status s) w) \<and>
   RemoteSlurmSpawner_state_gethost c e s w =
     (Inl TypeError, log ERROR (''Spawner unable to match host addr in job status: '' @ job_status s) w)"
  by (simp add: BatchSpawnerRegexStates_state_gethost_def RemoteSlurmSpawner_state_gethost_def)

text \<open>
  C6 does not hold for the remote class.  For a status text without a host (\<open>RUNNING\<close>,
  which is also what \<open>query_job_status\<close> of the remote class keeps of \<open>RUNNING node1\<close>),
  \<open>state_gethost\<close> of \<open>BatchSpawnerRegexStates\<close> logs the failure and returns \<open>None\<close>,
  but the override of \<open>RemoteSlurmSpawner\<close> passes that \<open>None\<close> to
  \<open>socket.gethostbyname\<close> and raises \<open>TypeError\<close>, which ends \<open>start\<close>.
\<close>

theorem remote_state_gethost_no_match_raises:
  "re_search (scripted []) (state_exechost_re example_config) (job_status running_no_host) = None \<and>
   fst (BatchSpawnerRegexStates_state_gethost example_config (scripted []) running_no_host world0) = Inr None \<and>
   fst (RemoteSlurmSpawner_state_gethost example_config (scripted []) running_no_host world0) = Inl TypeError \<and>
   fst (RemoteSlurmSpawner_start example_config
          (scripted [Inr ssh_submit_209, Inr (ssh_status ''RUNNING node1'')]) 5 fresh world0) = Inl TypeError"
  by code_simp

text \<open>
  C8: every remote \<open>start\<close> that returns, returns the address \<open>127.0.0.1\<close> with the port
  of the controller, and the last command it ran is the tunnel command whose forward
  \<open>-L port:host:port\<close> has that same port on the local and on the remote side.
\<close>

theorem remote_start_endpoint:
  "RemoteSlurmSpawner_start c e fuel s w = (Inr (h, p), s', w') \<Longrightarrow>
   h = ''127.0.0.1'' \<and> ip s' = ''127.0.0.1'' \<and> port s' = p \<and>
   (\<exists>host. last (commands (trace w')) =
      Exec (Popen (tunnel_open_cmd (req_sshPwdFile c) (req_sshUser c) (req_sshHost c)
                     p host p (req_sshTunnelsFolder c) p p)))"
  by (auto simp: RemoteSlurmSpawner_start_def Let_def perform_def log_def
        split: prod.splits sum.splits if_splits)

theorem remote_start_endpoint_witness:
  "fst (RemoteSlurmSpawner_start example_config (scripted remote_session) 5 fresh world0)
     = Inr (''127.0.0.1'', 8888) \<and>
   ip (fst (snd (RemoteSlurmSpawner_start example_config (scripted remote_session) 5 fresh world0)))
     = ''127.0.0.1'' \<and>
   port (fst (snd (RemoteSlurmSpawner_start example_config (scripted remote_session) 5 fresh world0)))
     = 8888"
proof -
  have ev: "fst (RemoteSlurmSpawner_start example_config (scripted remote_session) 5 fresh world0)
     = Inr (''127.0.0.1'', 8888)"
    by code_simp
  then obtain s' w' where st:
    "RemoteSlurmSpawner_start example_config (scripted remote_session) 5 fresh world0
       = (Inr (''127.0.0.1'', 8888), s', w')"
    by (cases "RemoteSlurmSpawner_start example_config (scripted remote_session) 5 fresh world0") auto
  from remote_start_endpoint [OF st] show ?thesis
    by (simp add: st)
qed

end
